theory Spec2Isabelle
  imports Main "HOL-Library.Word" "HOL-Library.Sublist"
begin

unbundle bit_operations_syntax

section \<open>Go library functions used by the two adapters\<close>

text \<open>
  Go strings are byte sequences; \<^typ>\<open>string\<close> is a list of bytes as well.
  \<open>strings.Join(elems, sep)\<close>: the elements in order, \<open>sep\<close> between neighbours, the
  empty string for no element.
\<close>

fun Join :: "string list \<Rightarrow> string \<Rightarrow> string" where
  "Join [] sep = []"
| "Join [e] sep = e"
| "Join (e # e' # es) sep = e @ sep @ Join (e' # es) sep"

text \<open>
  \<open>strings.IndexByte(s, c)\<close>: the index of the first byte \<open>c\<close> of \<open>s\<close>, or \<open>-1\<close> when
  \<open>s\<close> has none.
\<close>

fun IndexByte :: "string \<Rightarrow> char \<Rightarrow> int" where
  "IndexByte [] c = - 1"
| "IndexByte (b # s) c =
     (if b = c then 0
      else (let i = IndexByte s c in if i < 0 then - 1 else i + 1))"

text \<open>
  \<open>strconv.Itoa(i)\<close>: the decimal digits of \<open>i\<close>, most significant first, after a minus
  sign for a negative number. The argument is a Go \<open>int\<close>; every call of the hook passes
  a \<open>len(...)\<close>, which is never negative and never overflows.
\<close>

definition digits :: string where
  "digits = ''0123456789abcdefghijklmnopqrstuvwxyz''"

function formatBits :: "nat \<Rightarrow> string" where
  "formatBits n =
     (if n < 10 then [digits ! n]
      else formatBits (n div 10) @ [digits ! (n mod 10)])"
  by pat_completeness auto
termination
  by (relation "measure (\<lambda>n. n)") auto

definition Itoa :: "int \<Rightarrow> string" where
  "Itoa i = (if i < 0 then CHR ''-'' # formatBits (nat (- i)) else formatBits (nat i))"

text \<open>
  \<open>math.IsNaN(f)\<close> on the IEEE 754 bits of a \<open>float64\<close>: the eleven exponent bits are all
  set and the fraction is not zero.
\<close>

type_synonym float64 = "64 word"

definition IsNaN :: "float64 \<Rightarrow> bool" where
  "IsNaN f \<longleftrightarrow>
     (f AND 0x7FF0000000000000 = 0x7FF0000000000000) \<and> (f AND 0x000FFFFFFFFFFFFF \<noteq> 0)"

section \<open>Errors of the wrapped client\<close>

text \<open>
  A Go \<open>error\<close> is an interface value; \<open>nil\<close> is \<^term>\<open>None\<close> of \<open>error option\<close>.
  The hook tells three kinds of errors apart: the sentinel \<open>rueidis.Nil\<close> (compared by
  identity in \<open>end\<close>), any other \<open>*rueidis.RedisError\<close> (with its own answer to
  \<open>IsNil()\<close>), and errors of any other type. \<open>rueidis.IsRedisNil\<close> is the client library's
  test for a "not found" answer: true of the sentinel and of a \<open>RedisError\<close> whose
  \<open>IsNil()\<close> is true, false of every other error.
\<close>

datatype error = rueidis_Nil | RedisError bool string | errorString string

fun IsRedisNil :: "error \<Rightarrow> bool" where
  "IsRedisNil rueidis_Nil = True"
| "IsRedisNil (RedisError isNil msg) = isNil"
| "IsRedisNil (errorString msg) = False"

section \<open>The tracing API\<close>

text \<open>
  The tracing API of packages \<open>ddtrace\<close> and \<open>ddtrace/tracer\<close> is not among the sources;
  the adapters only call it. The spec names its surface: start-span-with-options,
  set-tag, finish-with-optional-error, get-span-from-context. The tracer is taken to be
  running, and a tag value is a string or a \<open>float64\<close>, the two kinds the adapters pass.
\<close>

datatype tagvalue = StrV string | FloatV float64

text \<open>
  Modelled from the spec: the span of the tracing API ("supports setting string/numeric
  tags by key"), with the name, type, service and resource that the start options set.
\<close>

record Span =
  name :: string
  spanType :: string
  service :: string
  resource :: string
  tags :: "string \<rightharpoonup> tagvalue"

text \<open>
  Modelled from the spec: \<open>span.SetTag(key, value)\<close> of the tracing API; a later value
  for a key replaces the earlier one.
\<close>

definition SetTag :: "Span \<Rightarrow> string \<Rightarrow> tagvalue \<Rightarrow> Span" where
  "SetTag span key v = span\<lparr>tags := (tags span)(key \<mapsto> v)\<rparr>"

text \<open>
  The start options the hook builds (\<open>tracer.SpanType\<close>, \<open>tracer.ServiceName\<close>,
  \<open>tracer.ResourceName\<close>, \<open>tracer.Tag\<close>) and its one finish option (\<open>tracer.WithError\<close>).
\<close>

datatype StartSpanOption =
    SpanType string
  | ServiceName string
  | ResourceName string
  | Tag string tagvalue

datatype FinishOption = WithError "error option"

text \<open>
  Modelled from the spec: what a start option of the tracing API does to the span being
  started; \<open>tracer.Tag(k, v)\<close> sets the tag \<open>k\<close>.
\<close>

fun applyOption :: "StartSpanOption \<Rightarrow> Span \<Rightarrow> Span" where
  "applyOption (SpanType t) span = span\<lparr>spanType := t\<rparr>"
| "applyOption (ServiceName s) span = span\<lparr>service := s\<rparr>"
| "applyOption (ResourceName r) span = span\<lparr>resource := r\<rparr>"
| "applyOption (Tag k v) span = SetTag span k v"

text \<open>
  Modelled from the spec: start-span-with-options of the tracing API; the options apply
  in the order given to a span that has the operation name and nothing else.
\<close>

definition StartSpan :: "string \<Rightarrow> StartSpanOption list \<Rightarrow> Span" where
  "StartSpan operationName opts =
     fold applyOption opts
       \<lparr>name = operationName, spanType = [], service = [], resource = [], tags = Map.empty\<rparr>"

text \<open>
  The tracer is the sequence of spans started and finished so far. A context holds the
  identifier of its active span, if any.
\<close>

datatype event = SpanStarted nat Span | SpanFinished nat "FinishOption list"

type_synonym tracer = "event list"

type_synonym Context = "nat option"

text \<open>
  Modelled from the spec: \<open>tracer.StartSpanFromContext\<close> of the tracing API; it starts a
  span, whose identifier is the position of its start in the tracer's sequence, and
  returns it with a context that holds it.
\<close>

definition StartSpanFromContext ::
  "Context \<Rightarrow> string \<Rightarrow> StartSpanOption list \<Rightarrow> tracer \<Rightarrow> (nat \<times> Context) \<times> tracer" where
  "StartSpanFromContext ctx operationName opts tr =
     (let sid = length tr
      in ((sid, Some sid), tr @ [SpanStarted sid (StartSpan operationName opts)]))"

text \<open>
  Modelled from the spec: \<open>tracer.SpanFromContext\<close> of the tracing API
  (get-span-from-context); the flag says whether the context held a span.
\<close>

definition SpanFromContext :: "Context \<Rightarrow> nat option \<times> bool" where
  "SpanFromContext ctx = (case ctx of Some sid \<Rightarrow> (Some sid, True) | None \<Rightarrow> (None, False))"

text \<open>
  Modelled from the spec: \<open>span.Finish(opts...)\<close> of the tracing API
  (finish-with-optional-error); the span that \<open>SpanFromContext\<close> gives for a context
  without a span does nothing when finished.
\<close>

definition Finish :: "nat option \<Rightarrow> FinishOption list \<Rightarrow> tracer \<Rightarrow> tracer" where
  "Finish span opts tr = (case span of Some sid \<Rightarrow> tr @ [SpanFinished sid opts] | None \<Rightarrow> tr)"

section \<open>The command tracing hook (package rueidis)\<close>

text \<open>
  The constants of package \<open>ddtrace/ext\<close> that \<open>start\<close> uses are not among the sources;
  they are a parameter of the hook's functions.
\<close>

record ext =
  SpanTypeRedis :: string
  Component :: string
  SpanKind :: string
  SpanKindClient :: string
  DBSystem :: string
  DBSystemRedis :: string
  EventSampleRate :: string

text \<open>
  \<open>clientConfig\<close> is declared outside the sources; these are the fields the hook reads.
  The error-classification predicate takes a Go \<open>error\<close>, \<open>nil\<close> included.
\<close>

record clientConfig =
  serviceName :: string
  skipRaw :: bool
  analyticsRate :: float64
  errCheck :: "error option \<Rightarrow> bool"

text \<open>\<open>params\<close>; \<open>datadogHook\<close> embeds a pointer to it and has no field of its own.\<close>

record params =
  config :: clientConfig
  additionalTags :: "StartSpanOption list"

type_synonym datadogHook = params

text \<open>
  A \<open>ClientOption\<close> is a function that updates the configuration. The commands of the
  client library are known to the hook by \<open>Commands()\<close>, the tokens of one command.
\<close>

type_synonym ClientOption = "clientConfig \<Rightarrow> clientConfig"

datatype Completed = Completed (Commands: "string list")

datatype Cacheable = Cacheable (CacheableCommands: "string list")

type_synonym Duration = "64 word"

record CacheableTTL =
  Cmd :: Cacheable
  TTL :: Duration

text \<open>
  A \<open>RedisResult\<close> is known to the hook by \<open>Error()\<close>; the answer itself is passed through
  to the caller.
\<close>

datatype RedisResult = RedisResult (Error: "error option") (answer: string)

text \<open>
  The wrapped \<open>rueidis.Client\<close>: the five operations the hook intercepts, as functions
  of their arguments that return. \<open>'fn\<close> is the type of the callback of \<open>Receive\<close>.
\<close>

record 'fn Client =
  client_Do :: "Context \<Rightarrow> Completed \<Rightarrow> RedisResult"
  client_DoMulti :: "Context \<Rightarrow> Completed list \<Rightarrow> RedisResult list"
  client_DoCache :: "Context \<Rightarrow> Cacheable \<Rightarrow> Duration \<Rightarrow> RedisResult"
  client_DoMultiCache :: "Context \<Rightarrow> CacheableTTL list \<Rightarrow> RedisResult list"
  client_Receive :: "Context \<Rightarrow> Completed \<Rightarrow> 'fn \<Rightarrow> error option"

text \<open>
  \<open>additionalTagOptions\<close>: the loop ranges over the slice as it was on entry and appends
  each element to the variable \<open>addrs\<close>.
\<close>

definition additionalTagOptions :: "string list \<Rightarrow> StartSpanOption list" where
  "additionalTagOptions addrs =
     (let addrs' = fold (\<lambda>addr acc. acc @ [addr]) addrs addrs
      in [Tag ''addrs'' (StrV (Join addrs' '', ''))])"

text \<open>
  \<open>WrapClient\<close>: the hook it installs. \<open>defaults\<close> is declared outside the sources; the
  configuration it leaves is the parameter \<open>dflt\<close>.
\<close>

definition WrapClient :: "clientConfig \<Rightarrow> string list \<Rightarrow> ClientOption list \<Rightarrow> datadogHook" where
  "WrapClient dflt addrs opts =
     (let cfg = fold (\<lambda>fn cfg. fn cfg) opts dflt
      in \<lparr>config = cfg, additionalTags = additionalTagOptions addrs\<rparr>)"

definition resourceName :: "string \<Rightarrow> string" where
  "resourceName op =
     (let spaceIndex = IndexByte op CHR '' ''
      in if spaceIndex > 0 then take (nat spaceIndex) op else op)"

definition start ::
  "ext \<Rightarrow> datadogHook \<Rightarrow> Context \<Rightarrow> string \<Rightarrow> int \<Rightarrow> tracer
     \<Rightarrow> (Context \<times> error option) \<times> tracer" where
  "start x h ctx op size' tr =
     (let p = h;
          opts = [SpanType (SpanTypeRedis x),
                  ServiceName (serviceName (config p)),
                  ResourceName (resourceName op),
                  Tag ''redis.args_length'' (StrV (Itoa size')),
                  Tag (Component x) (StrV ''rueidis''),
                  Tag (SpanKind x) (StrV (SpanKindClient x)),
                  Tag (DBSystem x) (StrV (DBSystemRedis x))];
          opts = (if \<not> skipRaw (config p)
                  then opts @ [Tag ''redis.raw_command'' (StrV op)] else opts);
          opts = opts @ additionalTags h;
          opts = (if \<not> IsNaN (analyticsRate (config p))
                  then opts @ [Tag (EventSampleRate x) (FloatV (analyticsRate (config p)))]
                  else opts);
          ((_, ctx'), tr') = StartSpanFromContext ctx ''redis.command'' opts tr
      in ((ctx', None), tr'))"

definition hook_end :: "datadogHook \<Rightarrow> Context \<Rightarrow> error option \<Rightarrow> tracer \<Rightarrow> tracer" where
  "hook_end h ctx errRedis tr =
     (let (span, _) = SpanFromContext ctx;
          finishOpts = [];
          finishOpts = (if errRedis \<noteq> Some rueidis_Nil \<and> errCheck (config h) errRedis
                        then finishOpts @ [WithError errRedis] else finishOpts)
      in Finish span finishOpts tr)"

fun firstError :: "RedisResult list \<Rightarrow> error option" where
  "firstError [] = None"
| "firstError (result # s) =
     (case Error result of
        Some err \<Rightarrow> if \<not> IsRedisNil err then Some err else firstError s
      | None \<Rightarrow> firstError s)"

text \<open>
  The three string builders: each command writes its tokens joined by a space, then
  a colon and a line feed.
\<close>

definition completedToStr :: "Completed list \<Rightarrow> string" where
  "completedToStr cmds =
     fold (\<lambda>command builder. builder @ (Join (Commands command) '' '' @ '':\<newline>''))
       cmds []"

definition cacheableToStr :: "Cacheable list \<Rightarrow> string" where
  "cacheableToStr cmds =
     fold (\<lambda>command builder.
             builder @ (Join (CacheableCommands command) '' '' @ '':\<newline>''))
       cmds []"

definition cacheableTtlToStr :: "CacheableTTL list \<Rightarrow> string" where
  "cacheableTtlToStr cmds =
     fold (\<lambda>command builder.
             builder @ (Join (CacheableCommands (Cmd command)) '' '' @ '':\<newline>''))
       cmds []"

text \<open>
  The five hook methods. Each returns what the wrapped client returned, with the tracer
  after the call.
\<close>

definition Do ::
  "ext \<Rightarrow> datadogHook \<Rightarrow> 'fn Client \<Rightarrow> Context \<Rightarrow> Completed \<Rightarrow> tracer
     \<Rightarrow> RedisResult \<times> tracer" where
  "Do x h client ctx cmd tr =
     (let ((ctx', _), tr1) = start x h ctx (completedToStr [cmd]) (int (length (Commands cmd))) tr;
          resp = client_Do client ctx' cmd;
          tr2 = hook_end h ctx' (Error resp) tr1
      in (resp, tr2))"

definition DoMulti ::
  "ext \<Rightarrow> datadogHook \<Rightarrow> 'fn Client \<Rightarrow> Context \<Rightarrow> Completed list \<Rightarrow> tracer
     \<Rightarrow> RedisResult list \<times> tracer" where
  "DoMulti x h client ctx multi tr =
     (let ((ctx', _), tr1) = start x h ctx (completedToStr multi) (int (length multi)) tr;
          resps = client_DoMulti client ctx' multi;
          tr2 = hook_end h ctx' (firstError resps) tr1
      in (resps, tr2))"

definition DoCache ::
  "ext \<Rightarrow> datadogHook \<Rightarrow> 'fn Client \<Rightarrow> Context \<Rightarrow> Cacheable \<Rightarrow> Duration \<Rightarrow> tracer
     \<Rightarrow> RedisResult \<times> tracer" where
  "DoCache x h client ctx cmd ttl tr =
     (let ((ctx', _), tr1) =
            start x h ctx (cacheableToStr [cmd]) (int (length (CacheableCommands cmd))) tr;
          resp = client_DoCache client ctx' cmd ttl;
          tr2 = hook_end h ctx' (Error resp) tr1
      in (resp, tr2))"

definition DoMultiCache ::
  "ext \<Rightarrow> datadogHook \<Rightarrow> 'fn Client \<Rightarrow> Context \<Rightarrow> CacheableTTL list \<Rightarrow> tracer
     \<Rightarrow> RedisResult list \<times> tracer" where
  "DoMultiCache x h client ctx multi tr =
     (let ((ctx', _), tr1) = start x h ctx (cacheableTtlToStr multi) (int (length multi)) tr;
          resps = client_DoMultiCache client ctx' multi;
          tr2 = hook_end h ctx' (firstError resps) tr1
      in (resps, tr2))"

definition Receive ::
  "ext \<Rightarrow> datadogHook \<Rightarrow> 'fn Client \<Rightarrow> Context \<Rightarrow> Completed \<Rightarrow> 'fn \<Rightarrow> tracer
     \<Rightarrow> error option \<times> tracer" where
  "Receive x h client ctx subscribe fn tr =
     (let ((ctx', _), tr1) =
            start x h ctx (completedToStr [subscribe]) (int (length (Commands subscribe))) tr;
          err = client_Receive client ctx' subscribe fn;
          tr2 = hook_end h ctx' err tr1
      in (err, tr2))"

section \<open>The security tag mapper (package grpcsec)\<close>

text \<open>
  A \<open>json.RawMessage\<close> is a byte string. A Go map is an association list with distinct
  keys, in the order in which \<open>range\<close> happens to visit it.
\<close>

type_synonym RawMessage = string

type_synonym metadata = "(string \<times> string list) list"

text \<open>
  Modelled from the spec: \<open>log.Error(format, err)\<close> of package \<open>internal/log\<close>, which is
  not among the sources ("emits an internal diagnostic log on internal failure"); the
  logger keeps the entries in order.
\<close>

type_synonym logger = "(string \<times> error) list"

definition log_Error :: "string \<Rightarrow> error \<Rightarrow> logger \<Rightarrow> logger" where
  "log_Error format err lg = lg @ [(format, err)]"

text \<open>
  \<open>setSecurityEventTags\<close>. \<open>instrumentation.SetEventSpanTags\<close> and
  \<open>httpsec.NormalizeHTTPHeaders\<close> are not among the sources; they are the parameters
  \<open>SetEventSpanTags\<close> (the span as it leaves it, and its error) and
  \<open>NormalizeHTTPHeaders\<close> (the normalized map).
\<close>

definition setSecurityEventTags ::
  "(Span \<Rightarrow> RawMessage list \<Rightarrow> Span \<times> error option) \<Rightarrow> (metadata \<Rightarrow> (string \<times> string) list)
     \<Rightarrow> Span \<Rightarrow> RawMessage list \<Rightarrow> metadata \<Rightarrow> Span \<times> error option" where
  "setSecurityEventTags SetEventSpanTags NormalizeHTTPHeaders span events md =
     (case SetEventSpanTags span events of
        (span1, Some err) \<Rightarrow> (span1, Some err)
      | (span1, None) \<Rightarrow>
          (fold (\<lambda>(h, v) sp. SetTag sp (''grpc.metadata.'' @ h) (StrV v))
             (NormalizeHTTPHeaders md) span1,
           None))"

text \<open>\<open>SetSecurityEventTags\<close> has no result; it leaves the span and the logger.\<close>

definition SetSecurityEventTags ::
  "(Span \<Rightarrow> RawMessage list \<Rightarrow> Span \<times> error option) \<Rightarrow> (metadata \<Rightarrow> (string \<times> string) list)
     \<Rightarrow> Span \<Rightarrow> RawMessage list \<Rightarrow> metadata \<Rightarrow> logger \<Rightarrow> Span \<times> logger" where
  "SetSecurityEventTags SetEventSpanTags NormalizeHTTPHeaders span events md lg =
     (case setSecurityEventTags SetEventSpanTags NormalizeHTTPHeaders span events md of
        (span', Some err) \<Rightarrow> (span', log_Error ''appsec: %v'' err lg)
      | (span', None) \<Rightarrow> (span', lg))"

section \<open>Observing the tracer\<close>

text \<open>The spans started and the finish calls made, in order.\<close>

fun spansStarted :: "tracer \<Rightarrow> Span list" where
  "spansStarted [] = []"
| "spansStarted (SpanStarted sid span # tr) = span # spansStarted tr"
| "spansStarted (SpanFinished sid opts # tr) = spansStarted tr"


section \<open>What the spec says, for comparison with the code\<close>

text \<open>
  The spec's words for the resource name: "the substring before the first space".
\<close>

definition beforeFirstSpace :: "string \<Rightarrow> string" where
  "beforeFirstSpace op = takeWhile (\<lambda>c. c \<noteq> CHR '' '') op"



section \<open>Inputs for the examples\<close>

text \<open>
  The values that the constants of \<open>ddtrace/ext\<close> have in the tracer's releases, a
  configuration, a client whose every operation succeeds, one whose operations fail,
  an event step that fails and one that succeeds, and a normalization that keeps every
  header name and joins its values.
\<close>

definition ext_values :: ext where
  "ext_values =
     \<lparr>SpanTypeRedis = ''redis'', Component = ''component'', SpanKind = ''span.kind'',
      SpanKindClient = ''client'', DBSystem = ''db.system'', DBSystemRedis = ''redis'',
      EventSampleRate = ''_dd1.sr.eausr''\<rparr>"

definition example_config :: clientConfig where
  "example_config =
     \<lparr>serviceName = ''redis.client'', skipRaw = False, analyticsRate = 0x7FF8000000000001,
      errCheck = (\<lambda>err. err \<noteq> None)\<rparr>"

definition skipRawOption :: ClientOption where
  "skipRawOption cfg = cfg\<lparr>skipRaw := True\<rparr>"

definition client_ok :: "unit Client" where
  "client_ok =
     \<lparr>client_Do = (\<lambda>ctx cmd. RedisResult None ''OK''),
      client_DoMulti = (\<lambda>ctx multi. map (\<lambda>cmd. RedisResult None ''OK'') multi),
      client_DoCache = (\<lambda>ctx cmd ttl. RedisResult None ''OK''),
      client_DoMultiCache = (\<lambda>ctx multi. map (\<lambda>cmd. RedisResult None ''OK'') multi),
      client_Receive = (\<lambda>ctx subscribe fn. None)\<rparr>"






section \<open>Properties of the hook's helpers\<close>

lemma fold_snoc: "fold (\<lambda>a acc. acc @ [a]) xs ys = ys @ xs"
  by (induction xs arbitrary: ys) simp_all

lemma additionalTagOptions_eq:
  "additionalTagOptions addrs = [Tag ''addrs'' (StrV (Join (addrs @ addrs) '', ''))]"
  by (simp add: additionalTagOptions_def fold_snoc)

lemma WrapClient_tags: "additionalTags (WrapClient dflt addrs opts) = additionalTagOptions addrs"
  by (simp add: WrapClient_def Let_def)

text \<open>
  C9: the \<open>addrs\<close> tag that \<open>WrapClient\<close> hands to the hook holds the address list
  followed by itself, joined by a comma and a space; for the empty list it is the empty
  string.
\<close>

theorem addrs_tag_doubles_the_list:
  "additionalTags (WrapClient dflt addrs opts) =
     [Tag ''addrs'' (StrV (Join (addrs @ addrs) '', ''))]
   \<and> additionalTags (WrapClient dflt [] opts) = [Tag ''addrs'' (StrV [])]"
  by (simp add: WrapClient_tags additionalTagOptions_eq)

lemma IndexByte_absent: "c \<notin> set s \<Longrightarrow> IndexByte s c = - 1"
  by (induction s) (auto simp: Let_def)

lemma IndexByte_first: "c \<notin> set pre \<Longrightarrow> IndexByte (pre @ c # post) c = int (length pre)"
  by (induction pre) (auto simp: Let_def)

text \<open>
  C3, as the spec states it, fails for an operation string that begins with a space:
  the substring before the first space is empty, and \<open>resourceName\<close> returns the whole
  string.
\<close>

theorem resourceName_leading_space_counterexample:
  "CHR '' '' \<in> set '' GET k'' \<and> beforeFirstSpace '' GET k'' = []
   \<and> resourceName '' GET k'' = '' GET k''"
  by (simp add: resourceName_def beforeFirstSpace_def)

text \<open>
  C3, amended: the resource name is the operation string itself when the string has no
  space or begins with a space, and the substring before the first space when the
  string has a space and does not begin with one.
\<close>

theorem resourceName_cases:
  "(CHR '' '' \<notin> set op \<longrightarrow> resourceName op = op)
   \<and> (CHR '' '' \<in> set op \<and> hd op = CHR '' '' \<longrightarrow> resourceName op = op)
   \<and> (CHR '' '' \<in> set op \<and> hd op \<noteq> CHR '' '' \<longrightarrow> resourceName op = beforeFirstSpace op)"
proof (intro conjI impI)
  assume "CHR '' '' \<notin> set op"
  then show "resourceName op = op"
    by (simp add: resourceName_def IndexByte_absent)
next
  assume "CHR '' '' \<in> set op \<and> hd op = CHR '' ''"
  then obtain post where "op = CHR '' '' # post"
    by (cases op) auto
  then show "resourceName op = op"
    by (simp add: resourceName_def)
next
  assume a: "CHR '' '' \<in> set op \<and> hd op \<noteq> CHR '' ''"
  then obtain pre post where split: "op = pre @ CHR '' '' # post" "CHR '' '' \<notin> set pre"
    by (meson split_list_first)
  with a have "pre \<noteq> []"
    by (cases pre) auto
  then have "0 < length pre"
    by simp
  moreover have "beforeFirstSpace op = pre"
    using split by (auto simp: beforeFirstSpace_def takeWhile_tail)
  ultimately show "resourceName op = beforeFirstSpace op"
    using split by (simp add: resourceName_def IndexByte_first)
qed

theorem resourceName_cases_witness:
  "CHR '' '' \<notin> set ''PING'' \<and> resourceName ''PING'' = ''PING''
   \<and> CHR '' '' \<in> set '' GET k'' \<and> hd '' GET k'' = CHR '' ''
   \<and> resourceName '' GET k'' = '' GET k''
   \<and> CHR '' '' \<in> set ''GET k'' \<and> hd ''GET k'' \<noteq> CHR '' '' \<and> resourceName ''GET k'' = ''GET''"
  using resourceName_cases [of "''PING''"] resourceName_cases [of "'' GET k''"]
    resourceName_cases [of "''GET k''"]
  by (simp add: beforeFirstSpace_def)

section \<open>The hook methods: one span per call\<close>

text \<open>
  \<open>start\<close> appends one started span to the tracer and returns a context that holds it;
  \<open>end\<close> on such a context appends one finish of that span.
\<close>

lemma start_eq:
  "start x h ctx op sz tr =
     ((Some (length tr), None),
      tr @ [SpanStarted (length tr) (StartSpan ''redis.command''
        ([SpanType (SpanTypeRedis x), ServiceName (serviceName (config h)),
          ResourceName (resourceName op), Tag ''redis.args_length'' (StrV (Itoa sz)),
          Tag (Component x) (StrV ''rueidis''), Tag (SpanKind x) (StrV (SpanKindClient x)),
          Tag (DBSystem x) (StrV (DBSystemRedis x))]
         @ (if skipRaw (config h) then [] else [Tag ''redis.raw_command'' (StrV op)])
         @ additionalTags h
         @ (if IsNaN (analyticsRate (config h)) then []
            else [Tag (EventSampleRate x) (FloatV (analyticsRate (config h)))])))])"
  by (simp add: start_def StartSpanFromContext_def Let_def)

lemma start_shape:
  "\<exists>sp. start x h ctx op sz tr = ((Some (length tr), None), tr @ [SpanStarted (length tr) sp])"
  by (simp add: start_eq)

lemma hook_end_eq:
  "hook_end h (Some sid) e tr =
     tr @ [SpanFinished sid
             (if e \<noteq> Some rueidis_Nil \<and> errCheck (config h) e then [WithError e] else [])]"
  by (simp add: hook_end_def SpanFromContext_def Finish_def)

lemma Do_eq:
  "Do x h client ctx cmd tr =
     (client_Do client (Some (length tr)) cmd,
      hook_end h (Some (length tr)) (Error (client_Do client (Some (length tr)) cmd))
        (snd (start x h ctx (completedToStr [cmd]) (int (length (Commands cmd))) tr)))"
  using start_shape [of x h ctx "completedToStr [cmd]" "int (length (Commands cmd))" tr]
  by (auto simp: Do_def Let_def)

lemma DoMulti_eq:
  "DoMulti x h client ctx multi tr =
     (client_DoMulti client (Some (length tr)) multi,
      hook_end h (Some (length tr)) (firstError (client_DoMulti client (Some (length tr)) multi))
        (snd (start x h ctx (completedToStr multi) (int (length multi)) tr)))"
  using start_shape [of x h ctx "completedToStr multi" "int (length multi)" tr]
  by (auto simp: DoMulti_def Let_def)

lemma DoCache_eq:
  "DoCache x h client ctx cmd ttl tr =
     (client_DoCache client (Some (length tr)) cmd ttl,
      hook_end h (Some (length tr)) (Error (client_DoCache client (Some (length tr)) cmd ttl))
        (snd (start x h ctx (cacheableToStr [cmd]) (int (length (CacheableCommands cmd))) tr)))"
  using start_shape [of x h ctx "cacheableToStr [cmd]" "int (length (CacheableCommands cmd))" tr]
  by (auto simp: DoCache_def Let_def)

lemma DoMultiCache_eq:
  "DoMultiCache x h client ctx multi tr =
     (client_DoMultiCache client (Some (length tr)) multi,
      hook_end h (Some (length tr))
        (firstError (client_DoMultiCache client (Some (length tr)) multi))
        (snd (start x h ctx (cacheableTtlToStr multi) (int (length multi)) tr)))"
  using start_shape [of x h ctx "cacheableTtlToStr multi" "int (length multi)" tr]
  by (auto simp: DoMultiCache_def Let_def)

lemma Receive_eq:
  "Receive x h client ctx subscribe fn tr =
     (client_Receive client (Some (length tr)) subscribe fn,
      hook_end h (Some (length tr)) (client_Receive client (Some (length tr)) subscribe fn)
        (snd (start x h ctx (completedToStr [subscribe]) (int (length (Commands subscribe))) tr)))"
  using start_shape [of x h ctx "completedToStr [subscribe]" "int (length (Commands subscribe))" tr]
  by (auto simp: Receive_def Let_def)

lemma start_then_end:
  assumes "\<exists>sp. start x h ctx op sz tr =
             ((Some (length tr), None), tr @ [SpanStarted (length tr) sp]) \<and> P sp"
  shows "\<exists>sp fo. hook_end h (Some (length tr)) e (snd (start x h ctx op sz tr)) =
           tr @ [SpanStarted (length tr) sp, SpanFinished (length tr) fo] \<and> P sp"
proof -
  from assms obtain sp where
    "start x h ctx op sz tr = ((Some (length tr), None), tr @ [SpanStarted (length tr) sp])"
    and "P sp"
    by blast
  then show ?thesis
    by (auto simp: hook_end_eq)
qed

text \<open>
  C5: each of the five hook methods adds to the tracer exactly one span start followed
  by exactly one finish of that span, whatever the wrapped client returns (a result
  without error, an error that the predicate classifies, an error that it does not).
\<close>

theorem one_start_one_finish:
  "(\<exists>sp fo. snd (Do x h client ctx cmd tr) =
        tr @ [SpanStarted (length tr) sp, SpanFinished (length tr) fo])
   \<and> (\<exists>sp fo. snd (DoMulti x h client ctx multi tr) =
        tr @ [SpanStarted (length tr) sp, SpanFinished (length tr) fo])
   \<and> (\<exists>sp fo. snd (DoCache x h client ctx cacheable ttl tr) =
        tr @ [SpanStarted (length tr) sp, SpanFinished (length tr) fo])
   \<and> (\<exists>sp fo. snd (DoMultiCache x h client ctx multiCache tr) =
        tr @ [SpanStarted (length tr) sp, SpanFinished (length tr) fo])
   \<and> (\<exists>sp fo. snd (Receive x h client ctx subscribe fn tr) =
        tr @ [SpanStarted (length tr) sp, SpanFinished (length tr) fo])"
proof -
  have step: "\<exists>sp fo. hook_end h (Some (length tr)) e (snd (start x h ctx op sz tr)) =
      tr @ [SpanStarted (length tr) sp, SpanFinished (length tr) fo]" for e op sz
    using start_shape [of x h ctx op sz tr] by (auto simp: hook_end_eq)
  show ?thesis
    unfolding Do_eq DoMulti_eq DoCache_eq DoMultiCache_eq Receive_eq snd_conv
    by (intro conjI step)
qed







section \<open>The tags of the started span\<close>

lemma start_args_length:
  assumes "''redis.args_length'' \<notin> {Component x, SpanKind x, DBSystem x, EventSampleRate x}"
  shows "\<exists>sp. start x (WrapClient dflt addrs opts) ctx op sz tr =
           ((Some (length tr), None), tr @ [SpanStarted (length tr) sp])
     \<and> tags sp ''redis.args_length'' = Some (StrV (Itoa sz))"
  using assms
  by (simp add: start_eq WrapClient_tags additionalTagOptions_eq StartSpan_def SetTag_def)

text \<open>
  C1, as the spec states it, fails for a single command of more than one token: \<open>Do\<close> on
  \<open>GET k\<close> sets the tag to \<open>2\<close>, the number of tokens.
\<close>

theorem args_length_single_command_counterexample:
  "tags (last (spansStarted (snd (Do ext_values (WrapClient example_config [''127.0.0.1:6379''] [])
      client_ok None (Completed [''GET'', ''k'']) [])))) ''redis.args_length'' = Some (StrV ''2'')
   \<and> tags (last (spansStarted (snd (Do ext_values (WrapClient example_config [''127.0.0.1:6379''] [])
      client_ok None (Completed [''GET'', ''k'']) [])))) ''redis.args_length'' \<noteq> Some (StrV ''1'')"
  by (simp add: Do_eq start_eq hook_end_eq WrapClient_tags additionalTagOptions_eq StartSpan_def
      SetTag_def ext_values_def Itoa_def digits_def)

text \<open>
  C1, amended: on the span started by a single-command method (\<open>Do\<close>, \<open>DoCache\<close>,
  \<open>Receive\<close>) of a hook that \<open>WrapClient\<close> built, the tag \<open>redis.args_length\<close> is the
  number of tokens of the command, in decimal; on the span started by a batch method
  (\<open>DoMulti\<close>, \<open>DoMultiCache\<close>) it is the number of commands. The keys of \<open>ddtrace/ext\<close>
  that \<open>start\<close> sets afterwards are taken to differ from \<open>redis.args_length\<close>.
\<close>

theorem args_length_counts_tokens_or_commands:
  assumes "''redis.args_length'' \<notin> {Component x, SpanKind x, DBSystem x, EventSampleRate x}"
    and "h = WrapClient dflt addrs opts"
  shows
  "(\<exists>sp fo. snd (Do x h client ctx cmd tr) =
        tr @ [SpanStarted (length tr) sp, SpanFinished (length tr) fo]
      \<and> tags sp ''redis.args_length'' = Some (StrV (Itoa (int (length (Commands cmd))))))
   \<and> (\<exists>sp fo. snd (DoCache x h client ctx cacheable ttl tr) =
        tr @ [SpanStarted (length tr) sp, SpanFinished (length tr) fo]
      \<and> tags sp ''redis.args_length'' =
          Some (StrV (Itoa (int (length (CacheableCommands cacheable))))))
   \<and> (\<exists>sp fo. snd (Receive x h client ctx subscribe fn tr) =
        tr @ [SpanStarted (length tr) sp, SpanFinished (length tr) fo]
      \<and> tags sp ''redis.args_length'' = Some (StrV (Itoa (int (length (Commands subscribe))))))
   \<and> (\<exists>sp fo. snd (DoMulti x h client ctx multi tr) =
        tr @ [SpanStarted (length tr) sp, SpanFinished (length tr) fo]
      \<and> tags sp ''redis.args_length'' = Some (StrV (Itoa (int (length multi)))))
   \<and> (\<exists>sp fo. snd (DoMultiCache x h client ctx multiCache tr) =
        tr @ [SpanStarted (length tr) sp, SpanFinished (length tr) fo]
      \<and> tags sp ''redis.args_length'' = Some (StrV (Itoa (int (length multiCache)))))"
  unfolding Do_eq DoCache_eq Receive_eq DoMulti_eq DoMultiCache_eq snd_conv assms(2)
  by (intro conjI start_then_end start_args_length assms(1))

theorem args_length_counts_tokens_or_commands_witness:
  "''redis.args_length'' \<notin> {Component ext_values, SpanKind ext_values, DBSystem ext_values,
      EventSampleRate ext_values}
   \<and> (\<exists>sp fo. snd (Do ext_values (WrapClient example_config [''127.0.0.1:6379''] []) client_ok
          None (Completed [''GET'', ''k'']) []) = [SpanStarted 0 sp, SpanFinished 0 fo]
        \<and> tags sp ''redis.args_length'' = Some (StrV ''2''))
   \<and> (\<exists>sp fo. snd (DoMulti ext_values (WrapClient example_config [''127.0.0.1:6379''] [])
          client_ok None
          [Completed [''GET'', ''a''], Completed [''GET'', ''b''], Completed [''PING'']] []) =
          [SpanStarted 0 sp, SpanFinished 0 fo]
        \<and> tags sp ''redis.args_length'' = Some (StrV ''3''))"
proof -
  have apart: "''redis.args_length'' \<notin> {Component ext_values, SpanKind ext_values,
      DBSystem ext_values, EventSampleRate ext_values}"
    by (simp add: ext_values_def)
  show ?thesis
    using apart
      args_length_counts_tokens_or_commands [OF apart refl, of example_config
        "[''127.0.0.1:6379'']" "[]" client_ok None "Completed [''GET'', ''k'']" "[]" _ _ _ _
        "[Completed [''GET'', ''a''], Completed [''GET'', ''b''], Completed [''PING'']]"]
    by (simp add: Itoa_def digits_def)
qed

lemma start_no_raw_command:
  assumes "skipRaw (config (WrapClient dflt addrs opts))"
    and "''redis.raw_command'' \<notin> {Component x, SpanKind x, DBSystem x, EventSampleRate x}"
  shows "\<exists>sp. start x (WrapClient dflt addrs opts) ctx op sz tr =
           ((Some (length tr), None), tr @ [SpanStarted (length tr) sp])
     \<and> tags sp ''redis.raw_command'' = None"
  using assms
  by (simp add: start_eq WrapClient_tags additionalTagOptions_eq StartSpan_def SetTag_def)

text \<open>
  C8: when the configuration of a hook that \<open>WrapClient\<close> built has raw-command redaction
  on, the span started by each of the five hook methods has no tag \<open>redis.raw_command\<close>,
  whatever the commands are. The keys of \<open>ddtrace/ext\<close> that \<open>start\<close> sets are taken to
  differ from \<open>redis.raw_command\<close>.
\<close>

theorem redaction_omits_raw_command:
  assumes "h = WrapClient dflt addrs opts" and "skipRaw (config h)"
    and "''redis.raw_command'' \<notin> {Component x, SpanKind x, DBSystem x, EventSampleRate x}"
  shows
  "(\<exists>sp fo. snd (Do x h client ctx cmd tr) =
        tr @ [SpanStarted (length tr) sp, SpanFinished (length tr) fo]
      \<and> tags sp ''redis.raw_command'' = None)
   \<and> (\<exists>sp fo. snd (DoMulti x h client ctx multi tr) =
        tr @ [SpanStarted (length tr) sp, SpanFinished (length tr) fo]
      \<and> tags sp ''redis.raw_command'' = None)
   \<and> (\<exists>sp fo. snd (DoCache x h client ctx cacheable ttl tr) =
        tr @ [SpanStarted (length tr) sp, SpanFinished (length tr) fo]
      \<and> tags sp ''redis.raw_command'' = None)
   \<and> (\<exists>sp fo. snd (DoMultiCache x h client ctx multiCache tr) =
        tr @ [SpanStarted (length tr) sp, SpanFinished (length tr) fo]
      \<and> tags sp ''redis.raw_command'' = None)
   \<and> (\<exists>sp fo. snd (Receive x h client ctx subscribe fn tr) =
        tr @ [SpanStarted (length tr) sp, SpanFinished (length tr) fo]
      \<and> tags sp ''redis.raw_command'' = None)"
proof -
  have skip: "skipRaw (config (WrapClient dflt addrs opts))"
    using assms(1,2) by simp
  show ?thesis
    unfolding Do_eq DoCache_eq Receive_eq DoMulti_eq DoMultiCache_eq snd_conv assms(1)
    by (intro conjI start_then_end start_no_raw_command skip assms(3))
qed

theorem redaction_omits_raw_command_witness:
  "skipRaw (config (WrapClient example_config [''127.0.0.1:6379''] [skipRawOption]))
   \<and> ''redis.raw_command'' \<notin> {Component ext_values, SpanKind ext_values, DBSystem ext_values,
      EventSampleRate ext_values}
   \<and> (\<exists>sp fo. snd (Do ext_values (WrapClient example_config [''127.0.0.1:6379''] [skipRawOption])
          client_ok None (Completed [''SET'', ''k'', ''secret'']) []) =
          [SpanStarted 0 sp, SpanFinished 0 fo]
        \<and> tags sp ''redis.raw_command'' = None)"
proof -
  have skip: "skipRaw (config (WrapClient example_config [''127.0.0.1:6379''] [skipRawOption]))"
    by (simp add: WrapClient_def skipRawOption_def)
  have apart: "''redis.raw_command'' \<notin> {Component ext_values, SpanKind ext_values,
      DBSystem ext_values, EventSampleRate ext_values}"
    by (simp add: ext_values_def)
  show ?thesis
    using skip apart
      redaction_omits_raw_command [OF refl skip apart, where client = client_ok and ctx = None
        and cmd = "Completed [''SET'', ''k'', ''secret'']" and tr = "[]"]
    by simp
qed

section \<open>The operation string\<close>

lemma completedToStr_fold:
  "fold (\<lambda>command builder. builder @ (Join (Commands command) '' '' @ '':\<newline>'')) cmds acc =
     acc @ concat (map (\<lambda>command. Join (Commands command) '' '' @ '':\<newline>'') cmds)"
  by (induction cmds arbitrary: acc) simp_all

lemma completedToStr_concat:
  "completedToStr cmds =
     concat (map (\<lambda>command. Join (Commands command) '' '' @ '':\<newline>'') cmds)"
  by (simp add: completedToStr_def completedToStr_fold)

lemma completedToStr_suffix:
  assumes "cmds \<noteq> []"
  shows "suffix '':\<newline>'' (completedToStr cmds)"
proof -
  from assms obtain cs c where "cmds = cs @ [c]"
    by (meson rev_exhaust)
  then have "completedToStr cmds = (completedToStr cs @ Join (Commands c) '' '') @ '':\<newline>''"
    by (simp add: completedToStr_concat)
  then show ?thesis
    by (metis suffixI)
qed

lemma resourceName_one_token:
  assumes "CHR '' '' \<notin> set t"
  shows "resourceName (completedToStr [Completed [t]]) = t @ '':\<newline>''"
proof -
  have "CHR '' '' \<notin> set (completedToStr [Completed [t]])"
    using assms by (simp add: completedToStr_def)
  then show ?thesis
    by (simp add: resourceName_def IndexByte_absent) (simp add: completedToStr_def)
qed

lemma start_raw_command:
  assumes "\<not> skipRaw (config (WrapClient dflt addrs opts))"
    and "''redis.raw_command'' \<notin> {Component x, SpanKind x, DBSystem x, EventSampleRate x}"
  shows "\<exists>sp. start x (WrapClient dflt addrs opts) ctx op sz tr =
           ((Some (length tr), None), tr @ [SpanStarted (length tr) sp])
     \<and> (tags sp ''redis.raw_command'' = Some (StrV op) \<and> resource sp = resourceName op)"
  using assms
  by (simp add: start_eq WrapClient_tags additionalTagOptions_eq StartSpan_def SetTag_def)

text \<open>
  C10, as stated, fails for a single command whose one token has a space after its
  first byte: the resource name is cut at that space and does not end in a colon and a
  line feed.
\<close>

theorem one_token_with_space_counterexample:
  "resourceName (completedToStr [Completed [''a b'']]) = ''a''
   \<and> \<not> suffix '':\<newline>'' (resourceName (completedToStr [Completed [''a b'']]))"
  by (simp add: resourceName_def completedToStr_def suffix_def)

text \<open>
  C10, amended: the operation string is the concatenation, command by command, of the
  command's tokens joined by single spaces and followed by a colon and a line feed; for
  a list that is not empty it ends in a colon and a line feed. A hook that \<open>WrapClient\<close>
  built without redaction puts that string in the tag \<open>redis.raw_command\<close> and its
  \<open>resourceName\<close> in the resource of the span (the keys of \<open>ddtrace/ext\<close> taken to differ
  from \<open>redis.raw_command\<close>). The resource name of a single command of one token without
  a space is the token followed by a colon and a line feed.
\<close>

theorem operation_string_ends_with_separator:
  "completedToStr cmds =
     concat (map (\<lambda>command. Join (Commands command) '' '' @ '':\<newline>'') cmds)
   \<and> (cmds \<noteq> [] \<longrightarrow> suffix '':\<newline>'' (completedToStr cmds))
   \<and> (CHR '' '' \<notin> set t \<longrightarrow> resourceName (completedToStr [Completed [t]]) = t @ '':\<newline>'')
   \<and> (h = WrapClient dflt addrs opts \<and> \<not> skipRaw (config h)
        \<and> ''redis.raw_command'' \<notin> {Component x, SpanKind x, DBSystem x, EventSampleRate x} \<longrightarrow>
      (\<exists>sp fo. snd (DoMulti x h client ctx cmds tr) =
          tr @ [SpanStarted (length tr) sp, SpanFinished (length tr) fo]
        \<and> (tags sp ''redis.raw_command'' = Some (StrV (completedToStr cmds))
           \<and> resource sp = resourceName (completedToStr cmds)))
      \<and> (\<exists>sp fo. snd (Do x h client ctx cmd tr) =
          tr @ [SpanStarted (length tr) sp, SpanFinished (length tr) fo]
        \<and> (tags sp ''redis.raw_command'' = Some (StrV (completedToStr [cmd]))
           \<and> resource sp = resourceName (completedToStr [cmd])))
      \<and> (\<exists>sp fo. snd (Receive x h client ctx cmd fn tr) =
          tr @ [SpanStarted (length tr) sp, SpanFinished (length tr) fo]
        \<and> (tags sp ''redis.raw_command'' = Some (StrV (completedToStr [cmd]))
           \<and> resource sp = resourceName (completedToStr [cmd]))))"
proof (intro conjI impI)
  show "completedToStr cmds =
      concat (map (\<lambda>command. Join (Commands command) '' '' @ '':\<newline>'') cmds)"
    by (rule completedToStr_concat)
  show "suffix '':\<newline>'' (completedToStr cmds)" if "cmds \<noteq> []"
    using that by (rule completedToStr_suffix)
  show "resourceName (completedToStr [Completed [t]]) = t @ '':\<newline>''" if "CHR '' '' \<notin> set t"
    using that by (rule resourceName_one_token)
next
  assume hyp: "h = WrapClient dflt addrs opts \<and> \<not> skipRaw (config h)
      \<and> ''redis.raw_command'' \<notin> {Component x, SpanKind x, DBSystem x, EventSampleRate x}"
  then have h: "h = WrapClient dflt addrs opts"
    and raw: "\<not> skipRaw (config (WrapClient dflt addrs opts))"
    and apart: "''redis.raw_command'' \<notin> {Component x, SpanKind x, DBSystem x, EventSampleRate x}"
    by blast+
  show "\<exists>sp fo. snd (DoMulti x h client ctx cmds tr) =
          tr @ [SpanStarted (length tr) sp, SpanFinished (length tr) fo]
        \<and> (tags sp ''redis.raw_command'' = Some (StrV (completedToStr cmds))
           \<and> resource sp = resourceName (completedToStr cmds))"
    unfolding DoMulti_eq snd_conv h
    by (intro start_then_end start_raw_command raw apart)
  show "\<exists>sp fo. snd (Do x h client ctx cmd tr) =
          tr @ [SpanStarted (length tr) sp, SpanFinished (length tr) fo]
        \<and> (tags sp ''redis.raw_command'' = Some (StrV (completedToStr [cmd]))
           \<and> resource sp = resourceName (completedToStr [cmd]))"
    unfolding Do_eq snd_conv h
    by (intro start_then_end start_raw_command raw apart)
  show "\<exists>sp fo. snd (Receive x h client ctx cmd fn tr) =
          tr @ [SpanStarted (length tr) sp, SpanFinished (length tr) fo]
        \<and> (tags sp ''redis.raw_command'' = Some (StrV (completedToStr [cmd]))
           \<and> resource sp = resourceName (completedToStr [cmd]))"
    unfolding Receive_eq snd_conv h
    by (intro start_then_end start_raw_command raw apart)
qed

theorem operation_string_ends_with_separator_witness:
  "completedToStr [Completed [''GET'', ''a''], Completed [''PING'']] = ''GET a:\<newline>PING:\<newline>''
   \<and> [Completed [''GET'', ''a''], Completed [''PING'']] \<noteq> []
   \<and> suffix '':\<newline>'' (completedToStr [Completed [''GET'', ''a''], Completed [''PING'']])
   \<and> CHR '' '' \<notin> set ''PING''
   \<and> resourceName (completedToStr [Completed [''PING'']]) = ''PING:\<newline>''
   \<and> \<not> skipRaw (config (WrapClient example_config [''127.0.0.1:6379''] []))
   \<and> ''redis.raw_command'' \<notin> {Component ext_values, SpanKind ext_values, DBSystem ext_values,
        EventSampleRate ext_values}
   \<and> (\<exists>sp fo. snd (Do ext_values (WrapClient example_config [''127.0.0.1:6379''] []) client_ok
          None (Completed [''PING'']) []) = [SpanStarted 0 sp, SpanFinished 0 fo]
        \<and> tags sp ''redis.raw_command'' = Some (StrV ''PING:\<newline>'')
        \<and> resource sp = ''PING:\<newline>'')"
  using operation_string_ends_with_separator [where
      cmds = "[Completed [''GET'', ''a''], Completed [''PING'']]" and t = "''PING''"
      and h = "WrapClient example_config [''127.0.0.1:6379''] []" and dflt = example_config
      and addrs = "[''127.0.0.1:6379'']" and opts = "[]" and x = ext_values
      and client = client_ok and ctx = None and cmd = "Completed [''PING'']" and tr = "[]"]
  by (simp add: ext_values_def WrapClient_def example_config_def completedToStr_def
      resourceName_def)

section \<open>Properties of the security tag mapper\<close>

text \<open>
  C6: \<open>SetSecurityEventTags\<close> hands its caller no error, for any span, events (none
  included) and metadata: the error of the event step is the error of
  \<open>setSecurityEventTags\<close>, and all that \<open>SetSecurityEventTags\<close> does with it is to add one
  entry to the logger; without an error the logger is as it was.
\<close>

theorem SetSecurityEventTags_logs_and_returns:
  "snd (setSecurityEventTags E N span events md) = snd (E span events)
   \<and> fst (SetSecurityEventTags E N span events md lg) =
       fst (setSecurityEventTags E N span events md)
   \<and> snd (SetSecurityEventTags E N span events md lg) =
       (case snd (E span events) of
          Some err \<Rightarrow> lg @ [(''appsec: %v'', err)]
        | None \<Rightarrow> lg)"
  by (simp add: SetSecurityEventTags_def setSecurityEventTags_def log_Error_def
      split: prod.splits option.splits)







end
